theory Spec2Isabelle
  imports Complex_Main
begin

section \<open>The fragment of JavaScript the watcher relies on\<close>

text \<open>
  The watcher is a TypeScript class whose state is a metrics object of JavaScript
  numbers. A JavaScript number is modelled as a real number or \<open>NaN\<close>: the value
  \<open>NaN\<close> is kept because \<open>Number\<close> produces it from any payload string that is not
  a numeric literal, and it then propagates through every sum. Rounding of IEEE doubles,
  the two infinities and the sign of zero are not modelled.
\<close>

datatype jsnum = Num real | NaN

fun js_add :: "jsnum \<Rightarrow> jsnum \<Rightarrow> jsnum" where
  "js_add (Num a) (Num b) = Num (a + b)"
| "js_add _ _ = NaN"

fun js_sub :: "jsnum \<Rightarrow> jsnum \<Rightarrow> jsnum" where
  "js_sub (Num a) (Num b) = Num (a - b)"
| "js_sub _ _ = NaN"

text \<open>
  Division: the only divisor in the program is \<open>Math.pow(10, DEEP_DECIMALS)\<close>, which is
  never zero. JavaScript gives an infinity or \<open>NaN\<close> for a zero divisor; the model,
  which has no infinities, gives \<open>NaN\<close>.
\<close>

fun js_div :: "jsnum \<Rightarrow> jsnum \<Rightarrow> jsnum" where
  "js_div (Num a) (Num b) = (if b = 0 then NaN else Num (a / b))"
| "js_div _ _ = NaN"

text \<open>Comparisons are false as soon as one side is \<open>NaN\<close>.\<close>

fun js_lt :: "jsnum \<Rightarrow> jsnum \<Rightarrow> bool" where
  "js_lt (Num a) (Num b) = (a < b)"
| "js_lt _ _ = False"

fun js_le :: "jsnum \<Rightarrow> jsnum \<Rightarrow> bool" where
  "js_le (Num a) (Num b) = (a \<le> b)"
| "js_le _ _ = False"

definition js_gt :: "jsnum \<Rightarrow> jsnum \<Rightarrow> bool" where
  "js_gt a b = js_lt b a"

definition Math_pow10 :: "nat \<Rightarrow> jsnum" where
  "Math_pow10 d = Num (10 ^ d)"

text \<open>
  A value of type \<open>any\<close> that came out of a JSON document: the parsed payload of an
  event and the fields of a ledger object. An object is the list of its members.
\<close>

datatype jsval =
    JUndefined
  | JNull
  | JBool bool
  | JNumber jsnum
  | JString string
  | JArray "jsval list"
  | JObject "(string \<times> jsval) list"

text \<open>\<open>ToBoolean\<close>, the test an \<open>if (x)\<close> and the operators \<open>?:\<close> and \<open>||\<close> apply.\<close>

fun truthy_num :: "jsnum \<Rightarrow> bool" where
  "truthy_num (Num r) = (r \<noteq> 0)"
| "truthy_num NaN = False"

fun truthy :: "jsval \<Rightarrow> bool" where
  "truthy JUndefined = False"
| "truthy JNull = False"
| "truthy (JBool b) = b"
| "truthy (JNumber n) = truthy_num n"
| "truthy (JString s) = (s \<noteq> [])"
| "truthy (JArray _) = True"
| "truthy (JObject _) = True"

text \<open>\<open>a || b\<close> on numbers.\<close>

definition js_or :: "jsnum \<Rightarrow> jsnum \<Rightarrow> jsnum" where
  "js_or a b = (if truthy_num a then a else b)"

text \<open>
  \<open>v?.name\<close>: \<open>undefined\<close> when \<open>v\<close> is \<open>undefined\<close> or \<open>null\<close>, the member when
  \<open>v\<close> is an object that has it, \<open>undefined\<close> otherwise. The names the program reads
  (\<open>amount\<close>, \<open>value\<close>, \<open>burned_amount\<close>, \<open>deep_supply\<close>, \<open>balance\<close>,
  \<open>total_supply\<close>) are not properties of any built-in prototype, so reading them from
  a string, a number, a boolean or an array gives \<open>undefined\<close>.
\<close>

fun opt_get :: "jsval \<Rightarrow> string \<Rightarrow> jsval" where
  "opt_get (JObject kvs) k = (case map_of kvs k of None \<Rightarrow> JUndefined | Some v \<Rightarrow> v)"
| "opt_get _ k = JUndefined"

text \<open>\<open>v.name\<close> without the \<open>?\<close>: a \<open>TypeError\<close> when \<open>v\<close> is \<open>undefined\<close> or \<open>null\<close>.\<close>

datatype exn = TypeError | Error string | RpcError

fun get :: "jsval \<Rightarrow> string \<Rightarrow> exn + jsval" where
  "get JUndefined k = Inl TypeError"
| "get JNull k = Inl TypeError"
| "get v k = Inr (opt_get v k)"

text \<open>
  \<open>Number(v)\<close> is a built-in of the runtime. The functions of the watcher take it as
  the parameter \<open>toNumber\<close>, and what is proved of them holds for every conversion.
  \<open>Number_js\<close> is the conversion used at concrete inputs: it is ECMAScript's
  \<open>ToNumber\<close> on \<open>undefined\<close>, \<open>null\<close>, booleans, numbers and on strings that are a
  plain decimal integer literal with an optional sign; every other string, and every
  array and object, is sent to \<open>NaN\<close>, which is not always what ECMAScript does
  (\<open>Number("1.5")\<close>, \<open>Number(" 7 ")\<close>, \<open>Number([])\<close>).
\<close>

fun digit_val :: "char \<Rightarrow> nat option" where
  "digit_val c =
     map_of [(CHR ''0'', 0), (CHR ''1'', 1), (CHR ''2'', 2), (CHR ''3'', 3), (CHR ''4'', 4),
             (CHR ''5'', 5), (CHR ''6'', 6), (CHR ''7'', 7), (CHR ''8'', 8), (CHR ''9'', 9)] c"

fun digits_val :: "nat \<Rightarrow> string \<Rightarrow> nat option" where
  "digits_val acc [] = Some acc"
| "digits_val acc (c # cs) =
     (case digit_val c of None \<Rightarrow> None | Some d \<Rightarrow> digits_val (10 * acc + d) cs)"

fun StringToNumber :: "string \<Rightarrow> jsnum" where
  "StringToNumber [] = Num 0"
| "StringToNumber (c # cs) =
     (if c = CHR ''-'' \<and> cs \<noteq> [] then
        (case digits_val 0 cs of None \<Rightarrow> NaN | Some n \<Rightarrow> Num (- real n))
      else if c = CHR ''+'' \<and> cs \<noteq> [] then
        (case digits_val 0 cs of None \<Rightarrow> NaN | Some n \<Rightarrow> Num (real n))
      else (case digits_val 0 (c # cs) of None \<Rightarrow> NaN | Some n \<Rightarrow> Num (real n)))"

fun Number_js :: "jsval \<Rightarrow> jsnum" where
  "Number_js JUndefined = NaN"
| "Number_js JNull = Num 0"
| "Number_js (JBool b) = Num (if b then 1 else 0)"
| "Number_js (JNumber n) = n"
| "Number_js (JString s) = StringToNumber s"
| "Number_js (JArray _) = NaN"
| "Number_js (JObject _) = NaN"

text \<open>
  A \<open>Date\<close> is its time value: a whole number of milliseconds since the epoch, or
  \<open>NaN\<close> for an invalid date. \<open>new Date(v)\<close> clips \<open>v\<close> (\<open>TimeClip\<close>): beyond
  \<open>8.64e15\<close> in magnitude the date is invalid, otherwise the fraction is dropped.
\<close>

datatype Date = Date (getTime: jsnum)

fun TimeClip :: "jsnum \<Rightarrow> jsnum" where
  "TimeClip NaN = NaN"
| "TimeClip (Num r) =
     (if \<bar>r\<bar> > 8640000000000000 then NaN
      else Num (of_int (if 0 \<le> r then \<lfloor>r\<rfloor> else \<lceil>r\<rceil>)))"

definition new_Date :: "jsnum \<Rightarrow> Date" where
  "new_Date v = Date (TimeClip v)"

text \<open>
  The clock. \<open>Date.now()\<close> returns a whole number of milliseconds; every function that
  reads the clock takes the reading as an argument of type \<open>int\<close>.
\<close>

definition Date_at :: "int \<Rightarrow> Date" where
  "Date_at now = Date (Num (of_int now))"

text \<open>The decimal digits of a clock reading, as a template literal prints them.\<close>

fun digit_char :: "nat \<Rightarrow> char" where
  "digit_char n = ''0123456789'' ! (n mod 10)"

fun string_of_nat :: "nat \<Rightarrow> string" where
  "string_of_nat n =
     (if n < 10 then [digit_char n] else string_of_nat (n div 10) @ [digit_char n])"

definition string_of_int :: "int \<Rightarrow> string" where
  "string_of_int i = (if i < 0 then CHR ''-'' # string_of_nat (nat (- i)) else string_of_nat (nat i))"

section \<open>The watcher of the unnamed source file (version 1.0.0)\<close>

subsection \<open>Constants\<close>

definition DEEPBOOK_PACKAGE_ID :: string where
  "DEEPBOOK_PACKAGE_ID = ''0x2c8d603bc51326b8c13cef9dd07031a408a48dddb541963357661df5d3204809''"

definition DEEP_TREASURY_ID :: string where
  "DEEP_TREASURY_ID = ''0x032abf8948dda67a271bcc18e776dbbcfb0d58c8d288a700ff0d5521e57a1ffe''"

definition DEEP_TOKEN_ADDRESS :: string where
  "DEEP_TOKEN_ADDRESS = ''0xdeeb7a4662eec9f2f3def03fb937a663dddaa2e215b8078a284d026b7946c270''"

definition DEEP_TOKEN_TYPE :: string where
  "DEEP_TOKEN_TYPE = DEEP_TOKEN_ADDRESS @ ''::deep::DEEP''"

definition TREASURY_EVENTS :: "string list" where
  "TREASURY_EVENTS =
     [DEEPBOOK_PACKAGE_ID @ ''::treasury::BurnEvent'',
      DEEPBOOK_PACKAGE_ID @ ''::treasury::DeepBurnEvent'',
      DEEP_TOKEN_ADDRESS @ ''::deep::BurnEvent'']"

subsection \<open>Data model\<close>

record BurnEvent =
  txId :: string
  amount :: jsnum
  timestamp :: Date
  eventType :: string

record DeepTokenMetrics =
  currentSupply :: jsnum
  totalBurned :: jsnum
  burnRate24h :: jsnum
  lastBurnTx :: string
  lastBurnAmount :: jsnum
  lastBurnTimestamp :: Date
  treasuryBalance :: jsnum
  burnEvents :: "BurnEvent list"
  circulatingSupply :: jsnum

text \<open>The part of a \<open>SuiEvent\<close> the watcher reads: \<open>id.txDigest\<close>, \<open>parsedJson\<close>, \<open>timestampMs\<close>.\<close>

record SuiEvent =
  txDigest :: string
  parsedJson :: jsval
  timestampMs :: jsval

text \<open>
  The watcher object. \<open>unsubscribe\<close> is \<open>null\<close> or a closure that closes the
  subscriptions it has collected, in order; a subscription is named by a number.
  \<open>fallbackPollers\<close> holds, for every interval timer that
  \<open>setupAlternativeMonitoring\<close> has started, the variable \<open>lastTreasuryBalance\<close> its
  callback closes over. The program never clears a timer, so the list only grows.
\<close>

type_synonym subscription = nat

record DeepBurnWatcher =
  metrics :: DeepTokenMetrics
  refreshInterval :: nat
  unsubscribe :: "subscription list option"
  DEEP_DECIMALS :: nat
  fallbackPollers :: "jsnum list"

definition new_DeepBurnWatcher :: DeepBurnWatcher where
  "new_DeepBurnWatcher =
     \<lparr> metrics =
         \<lparr> currentSupply = Num 0, totalBurned = Num 0, burnRate24h = Num 0,
           lastBurnTx = [], lastBurnAmount = Num 0, lastBurnTimestamp = new_Date (Num 0),
           treasuryBalance = Num 0, burnEvents = [], circulatingSupply = Num 0 \<rparr>,
       refreshInterval = 15000,
       unsubscribe = None,
       DEEP_DECIMALS = 6,
       fallbackPollers = [] \<rparr>"

subsection \<open>The metrics aggregator\<close>

text \<open>
  \<open>calculateBurnRates\<close>: the events of the history whose age at the clock reading
  \<open>now\<close> is below 86400000 ms are kept, and their amounts are added up from 0, left
  to right, as \<open>reduce\<close> does.
\<close>

definition calculateBurnRates :: "int \<Rightarrow> DeepTokenMetrics \<Rightarrow> DeepTokenMetrics" where
  "calculateBurnRates now m =
     (let burns24h =
            filter (\<lambda>event. js_lt (js_sub (Num (of_int now)) (getTime (timestamp event)))
                               (Num 86400000))
              (burnEvents m)
      in m\<lparr>burnRate24h := foldl (\<lambda>sum event. js_add sum (amount event)) (Num 0) burns24h\<rparr>)"

text \<open>
  \<open>processBurnEventData\<close>. \<open>displayMetrics\<close>, which it calls last, prints the
  metrics and changes nothing; it is left out here and below.
\<close>

definition processBurnEventData :: "int \<Rightarrow> BurnEvent \<Rightarrow> DeepTokenMetrics \<Rightarrow> DeepTokenMetrics" where
  "processBurnEventData now burnEvent m =
     (let m1 = m\<lparr>burnEvents := burnEvent # burnEvents m\<rparr>;
          m2 = m1\<lparr>totalBurned := js_add (totalBurned m1) (amount burnEvent)\<rparr>;
          m3 = m2\<lparr>currentSupply := js_sub (currentSupply m2) (amount burnEvent)\<rparr>;
          m4 = m3\<lparr>lastBurnTx := txId burnEvent\<rparr>;
          m5 = m4\<lparr>lastBurnAmount := amount burnEvent\<rparr>;
          m6 = m5\<lparr>lastBurnTimestamp := timestamp burnEvent\<rparr>;
          m7 = (if length (burnEvents m6) > 100
                then m6\<lparr>burnEvents := take 100 (burnEvents m6)\<rparr> else m6)
      in calculateBurnRates now m7)"

subsection \<open>The event normalizer\<close>

text \<open>
  The record \<open>burnEvent\<close> that \<open>processBurnEvent\<close> builds from a raw event, the topic
  it arrived on and the decimals of the token. The three candidate fields are tested
  for truthiness, in the order of the source.
\<close>

definition processBurnEvent_burnEvent ::
  "(jsval \<Rightarrow> jsnum) \<Rightarrow> nat \<Rightarrow> SuiEvent \<Rightarrow> string \<Rightarrow> BurnEvent" where
  "processBurnEvent_burnEvent toNumber decimals event eventType' =
     (let json = parsedJson event;
          amount' =
            (if truthy (opt_get json ''amount'') then
               js_div (toNumber (opt_get json ''amount'')) (Math_pow10 decimals)
             else if truthy (opt_get json ''value'') then
               js_div (toNumber (opt_get json ''value'')) (Math_pow10 decimals)
             else if truthy (opt_get json ''burned_amount'') then
               js_div (toNumber (opt_get json ''burned_amount'')) (Math_pow10 decimals)
             else Num 0)
      in \<lparr> txId = txDigest event, amount = amount',
           timestamp = new_Date (toNumber (timestampMs event)), eventType = eventType' \<rparr>)"

text \<open>
  \<open>processBurnEvent\<close>: nothing in its \<open>try\<close> block raises on an event of the shape
  above, so the \<open>catch\<close> has no branch here.
\<close>

definition processBurnEvent ::
  "(jsval \<Rightarrow> jsnum) \<Rightarrow> int \<Rightarrow> SuiEvent \<Rightarrow> string \<Rightarrow> DeepBurnWatcher \<Rightarrow> DeepBurnWatcher" where
  "processBurnEvent toNumber now event eventType' w =
     w\<lparr>metrics :=
         processBurnEventData now
           (processBurnEvent_burnEvent toNumber (DEEP_DECIMALS w) event eventType') (metrics w)\<rparr>"

subsection \<open>The three queries of a refresh\<close>

text \<open>What the RPC client answers to one call: the promise rejects, or resolves to a value.\<close>

datatype 'a rpc = Rejected | Resolved 'a

text \<open>The \<open>try\<close> block of \<open>getTotalSupply\<close>, then the method with its \<open>catch\<close>.\<close>

definition getTotalSupply_try :: "jsval rpc \<Rightarrow> DeepTokenMetrics \<Rightarrow> exn + jsnum" where
  "getTotalSupply_try coinMetadata m =
     (case coinMetadata of
        Rejected \<Rightarrow> Inl RpcError
      | Resolved metadata \<Rightarrow>
          if \<not> truthy metadata then Inl (Error ''DEEP token metadata not found'')
          else Inr (js_or (currentSupply m) (Num 1000000000)))"

definition getTotalSupply :: "jsval rpc \<Rightarrow> DeepTokenMetrics \<Rightarrow> jsnum" where
  "getTotalSupply coinMetadata m =
     (case getTotalSupply_try coinMetadata m of
        Inr supply \<Rightarrow> supply
      | Inl error \<Rightarrow> js_or (currentSupply m) (Num 1000000000))"

definition getTreasuryBalance_try :: "(jsval \<Rightarrow> jsnum) \<Rightarrow> nat \<Rightarrow> jsval rpc \<Rightarrow> exn + jsnum" where
  "getTreasuryBalance_try toNumber decimals object =
     (case object of
        Rejected \<Rightarrow> Inl RpcError
      | Resolved treasuryObject \<Rightarrow>
          (case get treasuryObject ''data'' of
             Inl e \<Rightarrow> Inl e
           | Inr data \<Rightarrow>
               let content = opt_get data ''content'' in
               if \<not> truthy content \<or> opt_get content ''dataType'' \<noteq> JString ''moveObject''
               then Inl (Error ''Invalid treasury data'')
               else
                 let fields = opt_get content ''fields'' in
                 (case get fields ''deep_supply'' of
                    Inl e \<Rightarrow> Inl e
                  | Inr deep_supply \<Rightarrow>
                      if truthy deep_supply then
                        Inr (js_div (toNumber deep_supply) (Math_pow10 decimals))
                      else if truthy (opt_get fields ''balance'') then
                        Inr (js_div (toNumber (opt_get fields ''balance'')) (Math_pow10 decimals))
                      else if truthy (opt_get fields ''total_supply'') then
                        Inr (js_div (toNumber (opt_get fields ''total_supply'')) (Math_pow10 decimals))
                      else Inr (Num 0))))"

definition getTreasuryBalance :: "(jsval \<Rightarrow> jsnum) \<Rightarrow> nat \<Rightarrow> jsval rpc \<Rightarrow> jsnum" where
  "getTreasuryBalance toNumber decimals object =
     (case getTreasuryBalance_try toNumber decimals object of
        Inr balance \<Rightarrow> balance
      | Inl error \<Rightarrow> Num 0)"

text \<open>The \<open>reduce\<close> over \<open>coins.data\<close>; reading \<open>balance\<close> from a \<open>null\<close> coin raises.\<close>

fun sum_coins :: "(jsval \<Rightarrow> jsnum) \<Rightarrow> nat \<Rightarrow> jsnum \<Rightarrow> jsval list \<Rightarrow> exn + jsnum" where
  "sum_coins toNumber decimals acc [] = Inr acc"
| "sum_coins toNumber decimals acc (coin # coins) =
     (case get coin ''balance'' of
        Inl e \<Rightarrow> Inl e
      | Inr balance \<Rightarrow>
          sum_coins toNumber decimals
            (js_add acc (js_div (toNumber balance) (Math_pow10 decimals))) coins)"

definition getCirculatingSupply_try :: "(jsval \<Rightarrow> jsnum) \<Rightarrow> nat \<Rightarrow> jsval rpc \<Rightarrow> exn + jsnum" where
  "getCirculatingSupply_try toNumber decimals allCoins =
     (case allCoins of
        Rejected \<Rightarrow> Inl RpcError
      | Resolved coins \<Rightarrow>
          (case get coins ''data'' of
             Inl e \<Rightarrow> Inl e
           | Inr (JArray data) \<Rightarrow> sum_coins toNumber decimals (Num 0) data
           | Inr _ \<Rightarrow> Inl TypeError))"

definition getCirculatingSupply :: "(jsval \<Rightarrow> jsnum) \<Rightarrow> nat \<Rightarrow> jsval rpc \<Rightarrow> jsnum" where
  "getCirculatingSupply toNumber decimals allCoins =
     (case getCirculatingSupply_try toNumber decimals allCoins of
        Inr totalCirculating \<Rightarrow> totalCirculating
      | Inl error \<Rightarrow> Num 0)"

subsection \<open>The periodic refresh\<close>

text \<open>The answers of the ledger to the three queries of one refresh.\<close>

record ledger =
  coinMetadata :: "jsval rpc"
  treasuryObject :: "jsval rpc"
  allCoins :: "jsval rpc"

text \<open>
  \<open>fetchAllMetrics\<close>. Each of the three queries catches its own errors, so
  \<open>Promise.all\<close> never rejects and the outer \<open>catch\<close> has no branch. The three
  queries and the assignments are taken as one step: an event that arrives while a
  query is in flight is not modelled.
\<close>

definition fetchAllMetrics ::
  "(jsval \<Rightarrow> jsnum) \<Rightarrow> int \<Rightarrow> ledger \<Rightarrow> DeepBurnWatcher \<Rightarrow> DeepBurnWatcher" where
  "fetchAllMetrics toNumber now l w =
     (let supply = getTotalSupply (coinMetadata l) (metrics w);
          treasury = getTreasuryBalance toNumber (DEEP_DECIMALS w) (treasuryObject l);
          circulating = getCirculatingSupply toNumber (DEEP_DECIMALS w) (allCoins l);
          m1 = (metrics w)\<lparr>currentSupply := supply\<rparr>;
          m2 = m1\<lparr>treasuryBalance := treasury\<rparr>;
          m3 = m2\<lparr>circulatingSupply := circulating\<rparr>
      in w\<lparr>metrics := calculateBurnRates now m3\<rparr>)"

subsection \<open>The fallback poller\<close>

text \<open>Timers the program starts, with the method they run and the delay in milliseconds.\<close>

datatype task = Run_setupEventSubscription | Run_fetchAllMetrics | Run_fallbackPoll

datatype effect = SetTimeout task nat | SetInterval task nat

text \<open>
  The callback that \<open>setupAlternativeMonitoring\<close> hands to \<open>setInterval\<close>, as a
  function of the variable \<open>lastTreasuryBalance\<close> it closes over and of the watcher.
  It reads the clock three times: \<open>tId\<close> for the identifier, \<open>tStamp\<close> for the
  timestamp, \<open>now\<close> inside \<open>calculateBurnRates\<close>. The result is the new value of the
  variable, the watcher, and the events handed to \<open>processBurnEventData\<close>.
  \<open>getTreasuryBalance\<close> never raises, so the \<open>catch\<close> has no branch.
\<close>

definition fallbackPoll ::
  "(jsval \<Rightarrow> jsnum) \<Rightarrow> int \<Rightarrow> int \<Rightarrow> int \<Rightarrow> jsval rpc \<Rightarrow> jsnum \<Rightarrow> DeepBurnWatcher
     \<Rightarrow> jsnum \<times> DeepBurnWatcher \<times> BurnEvent list" where
  "fallbackPoll toNumber tId tStamp now object lastTreasuryBalance w =
     (let currentTreasuryBalance = getTreasuryBalance toNumber (DEEP_DECIMALS w) object;
          balanceChange = js_sub lastTreasuryBalance currentTreasuryBalance
      in if js_gt balanceChange (Num 0) then
           (let burnEvent =
                  \<lparr> txId = ''treasury-'' @ string_of_int tId, amount = balanceChange,
                    timestamp = Date_at tStamp, eventType = ''TreasuryBalanceDecrease'' \<rparr>
            in (currentTreasuryBalance,
                w\<lparr>metrics := processBurnEventData now burnEvent (metrics w)\<rparr>,
                [burnEvent]))
         else (currentTreasuryBalance, w, []))"

text \<open>One firing of the \<open>i\<close>-th fallback timer of the watcher.\<close>

definition fallbackTick ::
  "(jsval \<Rightarrow> jsnum) \<Rightarrow> int \<Rightarrow> int \<Rightarrow> int \<Rightarrow> jsval rpc \<Rightarrow> nat \<Rightarrow> DeepBurnWatcher
     \<Rightarrow> DeepBurnWatcher \<times> BurnEvent list" where
  "fallbackTick toNumber tId tStamp now object i w =
     (if i < length (fallbackPollers w) then
        (case fallbackPoll toNumber tId tStamp now object (fallbackPollers w ! i) w of
           (last', w', forwarded) \<Rightarrow>
             (w'\<lparr>fallbackPollers := (fallbackPollers w')[i := last']\<rparr>, forwarded))
      else (w, []))"

definition setupAlternativeMonitoring :: "DeepBurnWatcher \<Rightarrow> DeepBurnWatcher \<times> effect list" where
  "setupAlternativeMonitoring w =
     (w\<lparr>fallbackPollers := fallbackPollers w @ [treasuryBalance (metrics w)]\<rparr>,
      [SetInterval Run_fallbackPoll 30000])"

subsection \<open>The subscription manager\<close>

text \<open>
  The loop of \<open>setupEventSubscription\<close> over the topics. \<open>subscribeEvent\<close> is the
  answer of the RPC client for each topic. The \<open>try\<close> inside the loop catches a
  rejected subscription, prints a warning and goes on to the next topic.
\<close>

fun subscribe_topics ::
  "(string \<Rightarrow> subscription rpc) \<Rightarrow> string list \<Rightarrow> subscription list option
     \<Rightarrow> subscription list option" where
  "subscribe_topics subscribeEvent [] u = u"
| "subscribe_topics subscribeEvent (eventType' # rest) u =
     (case subscribeEvent eventType' of
        Resolved unsub \<Rightarrow>
          subscribe_topics subscribeEvent rest
            (case u of Some prevUnsubscribe \<Rightarrow> Some (prevUnsubscribe @ [unsub])
                     | None \<Rightarrow> Some [unsub])
      | Rejected \<Rightarrow> subscribe_topics subscribeEvent rest u)"

text \<open>The outer \<open>try\<close> block, then the method with the outer \<open>catch\<close>.\<close>

definition setupEventSubscription_try ::
  "(string \<Rightarrow> subscription rpc) \<Rightarrow> DeepBurnWatcher \<Rightarrow> exn + DeepBurnWatcher \<times> effect list" where
  "setupEventSubscription_try subscribeEvent w =
     (let w1 = w\<lparr>unsubscribe := subscribe_topics subscribeEvent TREASURY_EVENTS (unsubscribe w)\<rparr>
      in if unsubscribe w1 = None then Inr (setupAlternativeMonitoring w1) else Inr (w1, []))"

definition setupEventSubscription ::
  "(string \<Rightarrow> subscription rpc) \<Rightarrow> DeepBurnWatcher \<Rightarrow> DeepBurnWatcher \<times> effect list" where
  "setupEventSubscription subscribeEvent w =
     (case setupEventSubscription_try subscribeEvent w of
        Inr r \<Rightarrow> r
      | Inl error \<Rightarrow> (w, [SetTimeout Run_setupEventSubscription 10000]))"

definition initialize ::
  "(jsval \<Rightarrow> jsnum) \<Rightarrow> int \<Rightarrow> ledger \<Rightarrow> (string \<Rightarrow> subscription rpc) \<Rightarrow> DeepBurnWatcher
     \<Rightarrow> DeepBurnWatcher \<times> effect list" where
  "initialize toNumber now l subscribeEvent w =
     (let w1 = fetchAllMetrics toNumber now l w in
      case setupEventSubscription subscribeEvent w1 of
        (w2, effects) \<Rightarrow> (w2, effects @ [SetInterval Run_fetchAllMetrics (refreshInterval w2)]))"

text \<open>\<open>cleanup\<close>: the subscriptions it closes. It stops no timer and changes no field.\<close>

definition cleanup :: "DeepBurnWatcher \<Rightarrow> subscription list" where
  "cleanup w = (case unsubscribe w of Some subs \<Rightarrow> subs | None \<Rightarrow> [])"

section \<open>The watcher of \<open>src/index.ts\<close> (version 0.1.0)\<close>

text \<open>
  The earlier watcher: one topic, no scaling by the decimals, no treasury, no fallback.
  Its names carry the prefix \<open>ix\<close>. Only the methods the claims are about are modelled.
\<close>

record ix_BurnEvent =
  ix_txId :: string
  ix_amount :: jsnum
  ix_timestamp :: Date

record ix_DeepTokenMetrics =
  ix_currentSupply :: jsnum
  ix_totalBurned :: jsnum
  ix_burnRate24h :: jsnum
  ix_lastBurnTx :: string
  ix_lastBurnAmount :: jsnum
  ix_lastBurnTimestamp :: Date
  ix_poolBalance :: jsnum
  ix_burnEvents :: "ix_BurnEvent list"

record ix_DeepBurnWatcher =
  ix_metrics :: ix_DeepTokenMetrics
  ix_refreshInterval :: nat
  ix_unsubscribe :: "subscription option"

definition ix_new_DeepBurnWatcher :: ix_DeepBurnWatcher where
  "ix_new_DeepBurnWatcher =
     \<lparr> ix_metrics =
         \<lparr> ix_currentSupply = Num 0, ix_totalBurned = Num 0, ix_burnRate24h = Num 0,
           ix_lastBurnTx = [], ix_lastBurnAmount = Num 0,
           ix_lastBurnTimestamp = new_Date (Num 0), ix_poolBalance = Num 0,
           ix_burnEvents = [] \<rparr>,
       ix_refreshInterval = 15000,
       ix_unsubscribe = None \<rparr>"

definition ix_calculateBurnRates :: "int \<Rightarrow> ix_DeepTokenMetrics \<Rightarrow> ix_DeepTokenMetrics" where
  "ix_calculateBurnRates now m =
     (let burns24h =
            filter (\<lambda>event. js_lt (js_sub (Num (of_int now)) (getTime (ix_timestamp event)))
                               (Num 86400000))
              (ix_burnEvents m)
      in m\<lparr>ix_burnRate24h := foldl (\<lambda>sum event. js_add sum (ix_amount event)) (Num 0) burns24h\<rparr>)"

definition ix_processBurnEvent_burnEvent :: "(jsval \<Rightarrow> jsnum) \<Rightarrow> SuiEvent \<Rightarrow> ix_BurnEvent" where
  "ix_processBurnEvent_burnEvent toNumber event =
     (let json = parsedJson event
      in \<lparr> ix_txId = txDigest event,
           ix_amount = (if truthy (opt_get json ''amount'')
                        then toNumber (opt_get json ''amount'') else Num 0),
           ix_timestamp = new_Date (toNumber (timestampMs event)) \<rparr>)"

definition ix_processBurnEvent ::
  "(jsval \<Rightarrow> jsnum) \<Rightarrow> int \<Rightarrow> SuiEvent \<Rightarrow> ix_DeepTokenMetrics \<Rightarrow> ix_DeepTokenMetrics" where
  "ix_processBurnEvent toNumber now event m =
     (let burnEvent = ix_processBurnEvent_burnEvent toNumber event;
          m1 = m\<lparr>ix_burnEvents := burnEvent # ix_burnEvents m\<rparr>;
          m2 = m1\<lparr>ix_totalBurned := js_add (ix_totalBurned m1) (ix_amount burnEvent)\<rparr>;
          m3 = m2\<lparr>ix_currentSupply := js_sub (ix_currentSupply m2) (ix_amount burnEvent)\<rparr>;
          m4 = m3\<lparr>ix_lastBurnTx := ix_txId burnEvent\<rparr>;
          m5 = m4\<lparr>ix_lastBurnAmount := ix_amount burnEvent\<rparr>;
          m6 = m5\<lparr>ix_lastBurnTimestamp := ix_timestamp burnEvent\<rparr>
      in ix_calculateBurnRates now m6)"

text \<open>
  \<open>setupEventSubscription\<close> of \<open>src/index.ts\<close>: a rejected subscription is caught and
  the method is scheduled again, whatever the number of earlier attempts.
\<close>

definition ix_setupEventSubscription ::
  "subscription rpc \<Rightarrow> ix_DeepBurnWatcher \<Rightarrow> ix_DeepBurnWatcher \<times> effect list" where
  "ix_setupEventSubscription subscribeEvent w =
     (case subscribeEvent of
        Resolved unsub \<Rightarrow> (w\<lparr>ix_unsubscribe := Some unsub\<rparr>, [])
      | Rejected \<Rightarrow> (w, [SetTimeout Run_setupEventSubscription 5000]))"

section \<open>Sequences of calls, and the words of the specification\<close>

text \<open>
  The sum of a list of numbers, as mathematics has it: \<open>NaN\<close> as soon as one term is.
\<close>

fun sum_amounts :: "jsnum list \<Rightarrow> jsnum" where
  "sum_amounts [] = Num 0"
| "sum_amounts (a # as) = js_add a (sum_amounts as)"

text \<open>
  A sequence of calls of the burn-event handler, each with the clock reading of its
  \<open>calculateBurnRates\<close>: \<open>processBurnEventData\<close> for the unnamed file,
  \<open>processBurnEvent\<close> for \<open>src/index.ts\<close>.
\<close>

fun feed :: "(int \<times> BurnEvent) list \<Rightarrow> DeepTokenMetrics \<Rightarrow> DeepTokenMetrics" where
  "feed [] m = m"
| "feed ((now, burnEvent) # rest) m = feed rest (processBurnEventData now burnEvent m)"

fun ix_feed ::
  "(jsval \<Rightarrow> jsnum) \<Rightarrow> (int \<times> SuiEvent) list \<Rightarrow> ix_DeepTokenMetrics \<Rightarrow> ix_DeepTokenMetrics" where
  "ix_feed toNumber [] m = m"
| "ix_feed toNumber ((now, event) # rest) m =
     ix_feed toNumber rest (ix_processBurnEvent toNumber now event m)"

text \<open>
  The candidate fields of the normalizer in the order the source tests them, and the
  first of them whose value passes the truthiness test.
\<close>

definition amount_candidates :: "string list" where
  "amount_candidates = [''amount'', ''value'', ''burned_amount'']"

definition first_truthy :: "jsval \<Rightarrow> string list \<Rightarrow> jsval option" where
  "first_truthy json names = find truthy (map (opt_get json) names)"

text \<open>
  The normalizer as the specification words it: the first candidate that is present in
  the payload wins, whatever its value.
\<close>

definition first_present :: "jsval \<Rightarrow> string list \<Rightarrow> jsval option" where
  "first_present json names = find (\<lambda>v. v \<noteq> JUndefined) (map (opt_get json) names)"

definition spec_amount :: "(jsval \<Rightarrow> jsnum) \<Rightarrow> nat \<Rightarrow> jsval \<Rightarrow> jsnum" where
  "spec_amount toNumber decimals json =
     (case first_present json amount_candidates of
        None \<Rightarrow> Num 0
      | Some v \<Rightarrow> js_div (toNumber v) (Math_pow10 decimals))"

text \<open>
  The window that \<open>calculateBurnRates\<close> applies, on the time value of a date: the clock
  reading minus the date is below 24 hours. The test has one side only: a date after the
  clock reading has a negative age and is inside, a date exactly 24 hours old is outside,
  and so is an invalid date.
\<close>

definition age_below_24h :: "int \<Rightarrow> Date \<Rightarrow> bool" where
  "age_below_24h now d =
     (case getTime d of Num t \<Rightarrow> real_of_int now - t < 24 * 60 * 60 * 1000 | NaN \<Rightarrow> False)"

text \<open>
  The window as the specification words it: the date lies within 24 hours of the clock
  reading, before it or after it, the bound included. An invalid date is outside.
\<close>

definition within_24h_of_now :: "int \<Rightarrow> Date \<Rightarrow> bool" where
  "within_24h_of_now now d =
     (case getTime d of Num t \<Rightarrow> \<bar>real_of_int now - t\<bar> \<le> 24 * 60 * 60 * 1000 | NaN \<Rightarrow> False)"

text \<open>
  Everything that can reach a running watcher: an event on a subscription, a refresh, a
  firing of a fallback timer, a later run of \<open>setupEventSubscription\<close> (which only the
  outer \<open>catch\<close> of that method would schedule), and \<open>cleanup\<close>, which changes no
  field.
\<close>

datatype input =
    Event int SuiEvent string
  | Refresh int ledger
  | Tick int int int "jsval rpc" nat
  | Resubscribe "string \<Rightarrow> subscription rpc"
  | Cleanup

fun react :: "(jsval \<Rightarrow> jsnum) \<Rightarrow> input \<Rightarrow> DeepBurnWatcher \<Rightarrow> DeepBurnWatcher" where
  "react toNumber (Event now event topic) w = processBurnEvent toNumber now event topic w"
| "react toNumber (Refresh now l) w = fetchAllMetrics toNumber now l w"
| "react toNumber (Tick tId tStamp now object i) w =
     fst (fallbackTick toNumber tId tStamp now object i w)"
| "react toNumber (Resubscribe subscribeEvent) w = fst (setupEventSubscription subscribeEvent w)"
| "react toNumber Cleanup w = w"

fun run :: "(jsval \<Rightarrow> jsnum) \<Rightarrow> input list \<Rightarrow> DeepBurnWatcher \<Rightarrow> DeepBurnWatcher" where
  "run toNumber [] w = w"
| "run toNumber (i # inputs) w = run toNumber inputs (react toNumber i w)"

section \<open>Concrete inputs\<close>

text \<open>
  A canonical event of a given amount and time, a raw event whose payload has the single
  field \<open>amount\<close>, and a raw event with a given payload.
\<close>

definition burn_of :: "real \<Rightarrow> int \<Rightarrow> BurnEvent" where
  "burn_of a t = \<lparr> txId = ''tx'', amount = Num a, timestamp = Date_at t,
                   eventType = ''TreasuryBalanceDecrease'' \<rparr>"

definition raw_event :: "string \<Rightarrow> string \<Rightarrow> SuiEvent" where
  "raw_event a t = \<lparr> txDigest = ''tx'', parsedJson = JObject [(''amount'', JString a)],
                     timestampMs = JString t \<rparr>"

definition payload_event :: "(string \<times> jsval) list \<Rightarrow> SuiEvent" where
  "payload_event members = \<lparr> txDigest = ''tx'', parsedJson = JObject members, timestampMs = JString ''0'' \<rparr>"

text \<open>
  Clock readings in hours.
\<close>

definition hours :: "int \<Rightarrow> int" where
  "hours h = h * 3600000"

text \<open>
  A treasury object with a given raw \<open>deep_supply\<close>, a page of coins with given raw
  balances, and a ledger that answers the three queries of a refresh: a treasury of 500
  and two coins of 2 and 3.
\<close>

definition supply_response :: "string \<Rightarrow> jsval rpc" where
  "supply_response raw =
     Resolved (JObject [(''data'', JObject [(''content'',
       JObject [(''dataType'', JString ''moveObject''),
                (''fields'', JObject [(''deep_supply'', JString raw)])])])])"

definition coins_response :: "string list \<Rightarrow> jsval rpc" where
  "coins_response raws =
     Resolved (JObject [(''data'', JArray (map (\<lambda>raw. JObject [(''balance'', JString raw)]) raws))])"

definition healthy_ledger :: ledger where
  "healthy_ledger =
     \<lparr> coinMetadata = Resolved (JObject [(''decimals'', JNumber (Num 6))]),
       treasuryObject = supply_response ''500000000'',
       allCoins = coins_response [''2000000'', ''3000000''] \<rparr>"

text \<open>
  A client that rejects every subscription, one that rejects only the first topic, and
  one that opens every subscription.
\<close>

definition all_rejected :: "string \<Rightarrow> subscription rpc" where
  "all_rejected topic = Rejected"

definition first_rejected :: "string \<Rightarrow> subscription rpc" where
  "first_rejected topic = (if topic = hd TREASURY_EVENTS then Rejected else Resolved (length topic))"

definition late_success :: "string \<Rightarrow> subscription rpc" where
  "late_success topic = Resolved (length topic)"

text \<open>
  A watcher after its first refresh on the healthy ledger, and the same watcher after a
  burn of 5 at time 0.
\<close>

definition w_refreshed :: DeepBurnWatcher where
  "w_refreshed = fetchAllMetrics Number_js 0 healthy_ledger new_DeepBurnWatcher"

definition w_burned :: DeepBurnWatcher where
  "w_burned = w_refreshed\<lparr>metrics := processBurnEventData 0 (burn_of 5 0) (metrics w_refreshed)\<rparr>"

text \<open>
  A history of two burns, stamped 75 and 77 hours, for each of the two handlers.
\<close>

definition m_two_burns :: DeepTokenMetrics where
  "m_two_burns = feed [(hours 75, burn_of 7 (hours 75)), (hours 77, burn_of 11 (hours 77))]
                   (metrics new_DeepBurnWatcher)"

definition im_two_burns :: ix_DeepTokenMetrics where
  "im_two_burns = ix_feed Number_js [(hours 75, raw_event ''7'' ''270000000''),
                     (hours 77, raw_event ''11'' ''277200000'')]
                   (ix_metrics ix_new_DeepBurnWatcher)"

text \<open>
  A watcher started while no subscription could be opened and the treasury held 1000.
\<close>

definition w_fallback :: DeepBurnWatcher where
  "w_fallback =
     fst (initialize Number_js 0 (healthy_ledger\<lparr>treasuryObject := supply_response ''1000000000''\<rparr>)
            all_rejected new_DeepBurnWatcher)"

section \<open>Properties of the methods\<close>

subsection \<open>Arithmetic of numbers\<close>

lemma js_add_zero_right: "js_add x (Num 0) = x"
  by (cases x) simp_all

lemma js_add_zero_left: "js_add (Num 0) x = x"
  by (cases x) simp_all

lemma js_add_assoc: "js_add (js_add a b) c = js_add a (js_add b c)"
  by (cases a; cases b; cases c) simp_all

lemma js_le_not_gt: "js_le a (Num 0) \<Longrightarrow> \<not> js_gt a (Num 0)"
  by (cases a) (simp_all add: js_gt_def)

lemma sum_amounts_append: "sum_amounts (xs @ ys) = js_add (sum_amounts xs) (sum_amounts ys)"
  by (induction xs) (simp_all add: js_add_assoc, cases "sum_amounts ys", simp_all)

lemma sum_amounts_nonneg:
  "\<forall>a \<in> set as. js_le (Num 0) a \<Longrightarrow> \<exists>s. 0 \<le> s \<and> sum_amounts as = Num s"
proof (induction as)
  case Nil
  show ?case by simp
next
  case (Cons a as)
  then obtain s where s: "0 \<le> s" "sum_amounts as = Num s" by auto
  from Cons.prems obtain r where r: "a = Num r" "0 \<le> r" by (cases a) auto
  show ?case using s r by simp
qed

lemma sum_amounts_numbers: "sum_amounts (map Num rs) = Num (sum_list rs)"
  by (induction rs) simp_all

lemma running_total_monotone:
  assumes "\<forall>a \<in> set (xs @ ys). js_le (Num 0) a"
  shows "js_le (sum_amounts xs) (sum_amounts (xs @ ys))"
proof -
  from assms have "\<forall>a \<in> set xs. js_le (Num 0) a" and "\<forall>a \<in> set ys. js_le (Num 0) a"
    by auto
  then obtain s t where "0 \<le> s" "sum_amounts xs = Num s" "0 \<le> t" "sum_amounts ys = Num t"
    using sum_amounts_nonneg by blast
  then show ?thesis by (simp add: sum_amounts_append)
qed

lemma foldl_js_add_sum:
  "foldl (\<lambda>total event. js_add total (f event)) a xs = js_add a (sum_amounts (map f xs))"
  by (induction xs arbitrary: a) (simp_all add: js_add_zero_right js_add_assoc)

subsection \<open>The aggregator of the unnamed file\<close>

lemma calculateBurnRates_frame:
  "totalBurned (calculateBurnRates now m) = totalBurned m"
  "burnEvents (calculateBurnRates now m) = burnEvents m"
  "currentSupply (calculateBurnRates now m) = currentSupply m"
  "treasuryBalance (calculateBurnRates now m) = treasuryBalance m"
  "circulatingSupply (calculateBurnRates now m) = circulatingSupply m"
  "lastBurnTx (calculateBurnRates now m) = lastBurnTx m"
  "lastBurnAmount (calculateBurnRates now m) = lastBurnAmount m"
  "lastBurnTimestamp (calculateBurnRates now m) = lastBurnTimestamp m"
  by (simp_all add: calculateBurnRates_def)

lemma burnRate24h_calculateBurnRates:
  "burnRate24h (calculateBurnRates now m) =
     foldl (\<lambda>total event. js_add total (amount event)) (Num 0)
       (filter (\<lambda>event. js_lt (js_sub (Num (of_int now)) (getTime (timestamp event))) (Num 86400000))
          (burnEvents m))"
  by (simp add: calculateBurnRates_def)

lemma burnRate24h_only_history:
  "burnEvents m = burnEvents m' \<Longrightarrow>
     burnRate24h (calculateBurnRates now m) = burnRate24h (calculateBurnRates now m')"
  by (simp add: burnRate24h_calculateBurnRates)

lemma window_test:
  "js_lt (js_sub (Num (of_int now)) (getTime d)) (Num 86400000) = age_below_24h now d"
  by (cases "getTime d") (simp_all add: age_below_24h_def)

text \<open>
  The two windows differ only on dates after the clock reading and on dates exactly 24
  hours old.
\<close>

lemma windows_agree:
  "getTime d = Num t \<Longrightarrow> t \<le> real_of_int now \<Longrightarrow> real_of_int now - t \<noteq> 86400000 \<Longrightarrow>
     age_below_24h now d = within_24h_of_now now d"
  by (auto simp add: age_below_24h_def within_24h_of_now_def)

lemma burnRate24h_window_sum:
  "burnRate24h (calculateBurnRates now m) =
     sum_amounts (map amount (filter (\<lambda>event. age_below_24h now (timestamp event)) (burnEvents m)))"
  by (simp add: burnRate24h_calculateBurnRates foldl_js_add_sum window_test js_add_zero_left)

lemma totalBurned_processBurnEventData:
  "totalBurned (processBurnEventData now e m) = js_add (totalBurned m) (amount e)"
  by (simp add: processBurnEventData_def Let_def calculateBurnRates_frame)

lemma burnEvents_processBurnEventData:
  "burnEvents (processBurnEventData now e m) = take 100 (e # burnEvents m)"
  by (simp add: processBurnEventData_def Let_def calculateBurnRates_frame)

lemma processBurnEventData_absolute:
  "treasuryBalance (processBurnEventData now e m) = treasuryBalance m"
  "circulatingSupply (processBurnEventData now e m) = circulatingSupply m"
  "currentSupply (processBurnEventData now e m) = js_sub (currentSupply m) (amount e)"
  by (simp_all add: processBurnEventData_def Let_def calculateBurnRates_frame)

lemma processBurnEventData_as_recalculation:
  "processBurnEventData now e m = calculateBurnRates now (processBurnEventData now e m)"
  by (simp add: processBurnEventData_def Let_def calculateBurnRates_def)

lemma feed_append: "feed (xs @ ys) m = feed ys (feed xs m)"
  by (induction xs arbitrary: m) auto

lemma totalBurned_feed:
  "totalBurned (feed steps m) = js_add (totalBurned m) (sum_amounts (map (amount \<circ> snd) steps))"
proof (induction steps arbitrary: m)
  case Nil
  show ?case by (simp add: js_add_zero_right)
next
  case (Cons s steps)
  obtain now e where s: "s = (now, e)" by (cases s)
  show ?case
    by (simp add: s Cons.IH totalBurned_processBurnEventData js_add_assoc)
qed

text \<open>
  The history never holds more than 100 events, and at 100 the oldest one makes room
  for the new one.
\<close>

lemma length_feed:
  "length (burnEvents m) \<le> 100 \<Longrightarrow>
     length (burnEvents (feed steps m)) = min 100 (length (burnEvents m) + length steps)"
proof (induction steps arbitrary: m)
  case Nil
  then show ?case by simp
next
  case (Cons s steps)
  obtain now e where s: "s = (now, e)" by (cases s)
  have "length (burnEvents (processBurnEventData now e m)) \<le> 100"
    by (simp add: burnEvents_processBurnEventData)
  from Cons.IH [OF this] show ?case
    using Cons.prems by (simp add: s burnEvents_processBurnEventData)
qed

lemma history_bounded:
  "length (burnEvents m) \<le> 100 \<Longrightarrow> length (burnEvents (feed steps m)) \<le> 100"
  by (simp add: length_feed)

lemma history_evicts_oldest:
  assumes "length (burnEvents m) = 100"
  shows "burnEvents (processBurnEventData now e m) = e # butlast (burnEvents m)"
  using assms by (simp add: burnEvents_processBurnEventData butlast_conv_take)

subsection \<open>The aggregator of \<open>src/index.ts\<close>\<close>

lemma ix_calculateBurnRates_frame:
  "ix_totalBurned (ix_calculateBurnRates now m) = ix_totalBurned m"
  "ix_burnEvents (ix_calculateBurnRates now m) = ix_burnEvents m"
  by (simp_all add: ix_calculateBurnRates_def)

lemma ix_burnRate24h_window_sum:
  "ix_burnRate24h (ix_calculateBurnRates now m) =
     sum_amounts (map ix_amount
       (filter (\<lambda>event. age_below_24h now (ix_timestamp event)) (ix_burnEvents m)))"
  by (simp add: ix_calculateBurnRates_def foldl_js_add_sum window_test js_add_zero_left)

lemma ix_totalBurned_processBurnEvent:
  "ix_totalBurned (ix_processBurnEvent toNumber now event m) =
     js_add (ix_totalBurned m) (ix_amount (ix_processBurnEvent_burnEvent toNumber event))"
  by (simp add: ix_processBurnEvent_def Let_def ix_calculateBurnRates_frame)

lemma ix_burnEvents_processBurnEvent:
  "ix_burnEvents (ix_processBurnEvent toNumber now event m) =
     ix_processBurnEvent_burnEvent toNumber event # ix_burnEvents m"
  by (simp add: ix_processBurnEvent_def Let_def ix_calculateBurnRates_frame)

lemma ix_processBurnEvent_as_recalculation:
  "ix_processBurnEvent toNumber now event m =
     ix_calculateBurnRates now (ix_processBurnEvent toNumber now event m)"
  by (simp add: ix_processBurnEvent_def Let_def ix_calculateBurnRates_def)

lemma ix_totalBurned_feed:
  "ix_totalBurned (ix_feed toNumber steps m) =
     js_add (ix_totalBurned m)
       (sum_amounts (map (\<lambda>s. ix_amount (ix_processBurnEvent_burnEvent toNumber (snd s))) steps))"
proof (induction steps arbitrary: m)
  case Nil
  show ?case by (simp add: js_add_zero_right)
next
  case (Cons s steps)
  obtain now e where s: "s = (now, e)" by (cases s)
  show ?case
    by (simp add: s Cons.IH ix_totalBurned_processBurnEvent js_add_assoc)
qed

lemma ix_length_feed:
  "length (ix_burnEvents (ix_feed toNumber steps m)) = length (ix_burnEvents m) + length steps"
proof (induction steps arbitrary: m)
  case Nil
  show ?case by simp
next
  case (Cons s steps)
  obtain now event where "s = (now, event)" by (cases s)
  then show ?case by (simp add: Cons.IH ix_burnEvents_processBurnEvent)
qed

subsection \<open>The refresh and its queries\<close>

lemma getTotalSupply_js_or:
  "getTotalSupply r m = js_or (currentSupply m) (Num 1000000000)"
  by (simp add: getTotalSupply_def getTotalSupply_try_def split: rpc.splits)


lemma fetchAllMetrics_metrics:
  "metrics (fetchAllMetrics toNumber now l w) =
     calculateBurnRates now
       ((metrics w)\<lparr>currentSupply := getTotalSupply (coinMetadata l) (metrics w),
                    treasuryBalance := getTreasuryBalance toNumber (DEEP_DECIMALS w) (treasuryObject l),
                    circulatingSupply := getCirculatingSupply toNumber (DEEP_DECIMALS w) (allCoins l)\<rparr>)"
  by (simp add: fetchAllMetrics_def Let_def)

lemma fetchAllMetrics_other_fields:
  "fallbackPollers (fetchAllMetrics toNumber now l w) = fallbackPollers w"
  "unsubscribe (fetchAllMetrics toNumber now l w) = unsubscribe w"
  "DEEP_DECIMALS (fetchAllMetrics toNumber now l w) = DEEP_DECIMALS w"
  "refreshInterval (fetchAllMetrics toNumber now l w) = refreshInterval w"
  by (simp_all add: fetchAllMetrics_def Let_def)

subsection \<open>The fallback poller\<close>

lemma fallbackPoll_cases:
  "fallbackPoll toNumber tId tStamp now object p w =
     (let c = getTreasuryBalance toNumber (DEEP_DECIMALS w) object in
      if js_gt (js_sub p c) (Num 0) then
        (c, w\<lparr>metrics := processBurnEventData now
               \<lparr>txId = ''treasury-'' @ string_of_int tId, amount = js_sub p c,
                timestamp = Date_at tStamp, eventType = ''TreasuryBalanceDecrease''\<rparr> (metrics w)\<rparr>,
         [\<lparr>txId = ''treasury-'' @ string_of_int tId, amount = js_sub p c,
           timestamp = Date_at tStamp, eventType = ''TreasuryBalanceDecrease''\<rparr>])
      else (c, w, []))"
  by (simp add: fallbackPoll_def Let_def)

lemma fallbackPoll_pollers:
  "fallbackPollers (fst (snd (fallbackPoll toNumber tId tStamp now object p w))) = fallbackPollers w"
  by (simp add: fallbackPoll_cases Let_def)

lemma fallbackTick_pollers:
  "fallbackPollers (fst (fallbackTick toNumber tId tStamp now object i w)) =
     (if i < length (fallbackPollers w)
      then (fallbackPollers w)[i := getTreasuryBalance toNumber (DEEP_DECIMALS w) object]
      else fallbackPollers w)"
  by (simp add: fallbackTick_def fallbackPoll_cases Let_def split: prod.splits)

lemma fallback_marking_distinct: "''TreasuryBalanceDecrease'' \<notin> set TREASURY_EVENTS"
  by (simp add: TREASURY_EVENTS_def DEEPBOOK_PACKAGE_ID_def DEEP_TOKEN_ADDRESS_def)

subsection \<open>The subscription manager\<close>

lemma subscribe_topics_None:
  "subscribe_topics subscribeEvent topics u = None \<longleftrightarrow>
     u = None \<and> (\<forall>t \<in> set topics. subscribeEvent t = Rejected)"
  by (induction topics arbitrary: u) (auto split: rpc.splits option.splits)

text \<open>
  The outer \<open>try\<close> block of \<open>setupEventSubscription\<close> never raises, so the method
  never reaches its \<open>catch\<close> and never schedules itself again.
\<close>

lemma setupEventSubscription_never_raises:
  "setupEventSubscription subscribeEvent w =
     (let w1 = w\<lparr>unsubscribe := subscribe_topics subscribeEvent TREASURY_EVENTS (unsubscribe w)\<rparr>
      in if unsubscribe w1 = None then setupAlternativeMonitoring w1 else (w1, []))"
  by (simp add: setupEventSubscription_def setupEventSubscription_try_def Let_def)

lemma setupEventSubscription_no_retry:
  "SetTimeout task delay \<notin> set (snd (setupEventSubscription subscribeEvent w))"
  by (simp add: setupEventSubscription_never_raises setupAlternativeMonitoring_def Let_def)

lemma setupEventSubscription_pollers:
  "fallbackPollers (fst (setupEventSubscription subscribeEvent w)) =
     (if unsubscribe w = None \<and> (\<forall>t \<in> set TREASURY_EVENTS. subscribeEvent t = Rejected)
      then fallbackPollers w @ [treasuryBalance (metrics w)] else fallbackPollers w)"
  by (simp add: setupEventSubscription_never_raises Let_def subscribe_topics_None
      setupAlternativeMonitoring_def)

lemma setupEventSubscription_effects:
  "snd (setupEventSubscription subscribeEvent w) =
     (if unsubscribe w = None \<and> (\<forall>t \<in> set TREASURY_EVENTS. subscribeEvent t = Rejected)
      then [SetInterval Run_fallbackPoll 30000] else [])"
  by (simp add: setupEventSubscription_never_raises Let_def subscribe_topics_None
      setupAlternativeMonitoring_def)

lemma setupEventSubscription_unsubscribe:
  "unsubscribe (fst (setupEventSubscription subscribeEvent w)) = None \<longleftrightarrow>
     unsubscribe w = None \<and> (\<forall>t \<in> set TREASURY_EVENTS. subscribeEvent t = Rejected)"
  by (simp add: setupEventSubscription_never_raises Let_def subscribe_topics_None
      setupAlternativeMonitoring_def)

lemma setupEventSubscription_refreshInterval:
  "refreshInterval (fst (setupEventSubscription subscribeEvent w)) = refreshInterval w"
  by (simp add: setupEventSubscription_never_raises Let_def setupAlternativeMonitoring_def)

lemma initialize_parts:
  "fst (initialize toNumber now l subscribeEvent w) =
     fst (setupEventSubscription subscribeEvent (fetchAllMetrics toNumber now l w))"
  "snd (initialize toNumber now l subscribeEvent w) =
     snd (setupEventSubscription subscribeEvent (fetchAllMetrics toNumber now l w)) @
       [SetInterval Run_fetchAllMetrics (refreshInterval
          (fst (setupEventSubscription subscribeEvent (fetchAllMetrics toNumber now l w))))]"
  by (simp_all add: initialize_def Let_def split_beta)

lemma ix_setupEventSubscription_retries:
  "snd (ix_setupEventSubscription Rejected w) = [SetTimeout Run_setupEventSubscription 5000]"
  "fst (ix_setupEventSubscription Rejected w) = w"
  by (simp_all add: ix_setupEventSubscription_def)

lemma setupEventSubscription_metrics:
  "metrics (fst (setupEventSubscription subscribeEvent w)) = metrics w"
  by (simp add: setupEventSubscription_never_raises Let_def setupAlternativeMonitoring_def)

lemma react_keeps_pollers:
  "length (fallbackPollers w) \<le> length (fallbackPollers (react toNumber i w))"
  by (cases i)
    (simp_all add: processBurnEvent_def fetchAllMetrics_other_fields fallbackTick_pollers
      setupEventSubscription_pollers)

lemma run_keeps_pollers:
  "length (fallbackPollers w) \<le> length (fallbackPollers (run toNumber inputs w))"
proof (induction inputs arbitrary: w)
  case Nil
  show ?case by simp
next
  case (Cons i inputs)
  have "length (fallbackPollers w) \<le> length (fallbackPollers (react toNumber i w))"
    by (rule react_keeps_pollers)
  also have "\<dots> \<le> length (fallbackPollers (run toNumber inputs (react toNumber i w)))"
    by (rule Cons.IH)
  finally show ?case by simp
qed

subsection \<open>The running watcher\<close>

text \<open>
  Whatever reaches the watcher, the history stays within 100 events, and only events
  change \<open>totalBurned\<close>.
\<close>

lemma fallbackTick_history_bounded:
  "length (burnEvents (metrics w)) \<le> 100 \<Longrightarrow>
     length (burnEvents (metrics (fst (fallbackTick toNumber tId tStamp now object i w)))) \<le> 100"
  by (simp add: fallbackTick_def fallbackPoll_cases Let_def burnEvents_processBurnEventData
      split: prod.splits)

lemma react_history_bounded:
  "length (burnEvents (metrics w)) \<le> 100 \<Longrightarrow>
     length (burnEvents (metrics (react toNumber i w))) \<le> 100"
  by (cases i)
    (simp_all add: processBurnEvent_def burnEvents_processBurnEventData fetchAllMetrics_metrics
      calculateBurnRates_frame fallbackTick_history_bounded setupEventSubscription_metrics)

lemma run_history_bounded:
  "length (burnEvents (metrics w)) \<le> 100 \<Longrightarrow>
     length (burnEvents (metrics (run toNumber inputs w))) \<le> 100"
  by (induction inputs arbitrary: w) (simp_all add: react_history_bounded)

lemma totalBurned_only_by_events:
  "totalBurned (metrics (react toNumber (Refresh now l) w)) = totalBurned (metrics w)"
  "totalBurned (metrics (react toNumber (Resubscribe subscribeEvent) w)) = totalBurned (metrics w)"
  "totalBurned (metrics (react toNumber Cleanup w)) = totalBurned (metrics w)"
  "totalBurned (metrics (react toNumber (Event now event topic) w)) =
     js_add (totalBurned (metrics w))
       (amount (processBurnEvent_burnEvent toNumber (DEEP_DECIMALS w) event topic))"
  by (simp_all add: fetchAllMetrics_metrics calculateBurnRates_frame setupEventSubscription_metrics
      processBurnEvent_def totalBurned_processBurnEventData)

subsection \<open>The concrete inputs, evaluated\<close>

lemma new_totalBurned:
  "totalBurned (metrics new_DeepBurnWatcher) = Num 0"
  "ix_totalBurned (ix_metrics ix_new_DeepBurnWatcher) = Num 0"
  by (simp_all add: new_DeepBurnWatcher_def ix_new_DeepBurnWatcher_def)

lemma new_watcher_fields:
  "unsubscribe new_DeepBurnWatcher = None"
  "fallbackPollers new_DeepBurnWatcher = []"
  "DEEP_DECIMALS new_DeepBurnWatcher = 6"
  "refreshInterval new_DeepBurnWatcher = 15000"
  by (simp_all add: new_DeepBurnWatcher_def)

lemma healthy_queries:
  "getTreasuryBalance Number_js 6 (treasuryObject healthy_ledger) = Num 500"
  "getCirculatingSupply Number_js 6 (allCoins healthy_ledger) = Num 5"
  by (simp_all add: healthy_ledger_def supply_response_def coins_response_def
      getTreasuryBalance_def getTreasuryBalance_try_def getCirculatingSupply_def
      getCirculatingSupply_try_def Math_pow10_def)

lemma supply_response_balance:
  "getTreasuryBalance Number_js 6 (supply_response ''900000000'') = Num 900"
  "getTreasuryBalance Number_js 6 (supply_response ''1000000000'') = Num 1000"
  "getTreasuryBalance Number_js 6 (supply_response ''1100000000'') = Num 1100"
  by (simp_all add: supply_response_def getTreasuryBalance_def getTreasuryBalance_try_def
      Math_pow10_def)

lemma w_refreshed_metrics:
  "currentSupply (metrics w_refreshed) = Num 1000000000"
  "treasuryBalance (metrics w_refreshed) = Num 500"
  "circulatingSupply (metrics w_refreshed) = Num 5"
  "totalBurned (metrics w_refreshed) = Num 0"
  "burnEvents (metrics w_refreshed) = []"
  "DEEP_DECIMALS w_refreshed = 6"
  by (simp_all add: w_refreshed_def fetchAllMetrics_metrics calculateBurnRates_frame
      healthy_queries getTotalSupply_js_or js_or_def new_DeepBurnWatcher_def fetchAllMetrics_def)

lemma w_burned_metrics:
  "currentSupply (metrics w_burned) = Num 999999995"
  "treasuryBalance (metrics w_burned) = Num 500"
  "circulatingSupply (metrics w_burned) = Num 5"
  "totalBurned (metrics w_burned) = Num 5"
  "burnEvents (metrics w_burned) = [burn_of 5 0]"
  "burnRate24h (metrics w_burned) = Num 5"
  "DEEP_DECIMALS w_burned = 6"
  by (simp_all add: w_burned_def processBurnEventData_absolute totalBurned_processBurnEventData
      burnEvents_processBurnEventData w_refreshed_metrics burn_of_def
      processBurnEventData_def calculateBurnRates_def Date_at_def)

lemma two_burns_history:
  "burnEvents m_two_burns = [burn_of 11 (hours 77), burn_of 7 (hours 75)]"
  "ix_burnEvents im_two_burns =
     [\<lparr>ix_txId = ''tx'', ix_amount = Num 11, ix_timestamp = Date_at (hours 77)\<rparr>,
      \<lparr>ix_txId = ''tx'', ix_amount = Num 7, ix_timestamp = Date_at (hours 75)\<rparr>]"
  by (simp_all add: m_two_burns_def im_two_burns_def burnEvents_processBurnEventData
      ix_burnEvents_processBurnEvent new_DeepBurnWatcher_def ix_new_DeepBurnWatcher_def
      ix_processBurnEvent_burnEvent_def raw_event_def new_Date_def Date_at_def hours_def)

lemma w_fallback_fields:
  "fallbackPollers w_fallback = [Num 1000]"
  "DEEP_DECIMALS w_fallback = 6"
  "unsubscribe w_fallback = None"
  by (simp_all add: w_fallback_def initialize_def setupEventSubscription_never_raises
      setupAlternativeMonitoring_def Let_def subscribe_topics_None all_rejected_def
      fetchAllMetrics_metrics calculateBurnRates_frame supply_response_balance
      healthy_ledger_def new_DeepBurnWatcher_def fetchAllMetrics_def split: prod.splits)

section \<open>The claims of the specification\<close>

subsection \<open>The running total of burns\<close>

text \<open>
  Claim C1, amended. For every sequence of events passed to the burn-event handler of a
  fresh watcher (\<open>processBurnEventData\<close> of the unnamed file, \<open>processBurnEvent\<close> of
  \<open>src/index.ts\<close>), \<open>totalBurned\<close> equals the sum of the amounts of all events passed so
  far. It does not decrease when further events are passed, provided the amount of every
  event passed is a number that is not negative.
\<close>

theorem totalBurned_running_sum:
  "totalBurned (feed steps (metrics new_DeepBurnWatcher)) = sum_amounts (map (amount \<circ> snd) steps)
   \<and> ((\<forall>s \<in> set (steps @ later). js_le (Num 0) (amount (snd s))) \<longrightarrow>
        js_le (totalBurned (feed steps (metrics new_DeepBurnWatcher)))
              (totalBurned (feed (steps @ later) (metrics new_DeepBurnWatcher))))
   \<and> ix_totalBurned (ix_feed toNumber isteps (ix_metrics ix_new_DeepBurnWatcher)) =
        sum_amounts (map (\<lambda>s. ix_amount (ix_processBurnEvent_burnEvent toNumber (snd s))) isteps)
   \<and> ((\<forall>s \<in> set (isteps @ ilater).
          js_le (Num 0) (ix_amount (ix_processBurnEvent_burnEvent toNumber (snd s)))) \<longrightarrow>
        js_le (ix_totalBurned (ix_feed toNumber isteps (ix_metrics ix_new_DeepBurnWatcher)))
              (ix_totalBurned (ix_feed toNumber (isteps @ ilater) (ix_metrics ix_new_DeepBurnWatcher))))"
proof (intro conjI impI)
  show "totalBurned (feed steps (metrics new_DeepBurnWatcher)) = sum_amounts (map (amount \<circ> snd) steps)"
    by (simp add: totalBurned_feed new_totalBurned js_add_zero_left)
next
  assume "\<forall>s \<in> set (steps @ later). js_le (Num 0) (amount (snd s))"
  then have "\<forall>a \<in> set (map (amount \<circ> snd) steps @ map (amount \<circ> snd) later). js_le (Num 0) a"
    by auto
  from running_total_monotone [OF this]
  show "js_le (totalBurned (feed steps (metrics new_DeepBurnWatcher)))
              (totalBurned (feed (steps @ later) (metrics new_DeepBurnWatcher)))"
    by (simp add: totalBurned_feed new_totalBurned js_add_zero_left)
next
  show "ix_totalBurned (ix_feed toNumber isteps (ix_metrics ix_new_DeepBurnWatcher)) =
        sum_amounts (map (\<lambda>s. ix_amount (ix_processBurnEvent_burnEvent toNumber (snd s))) isteps)"
    by (simp add: ix_totalBurned_feed new_totalBurned js_add_zero_left)
next
  let ?f = "\<lambda>s. ix_amount (ix_processBurnEvent_burnEvent toNumber (snd s))"
  assume "\<forall>s \<in> set (isteps @ ilater). js_le (Num 0) (?f s)"
  then have "\<forall>a \<in> set (map ?f isteps @ map ?f ilater). js_le (Num 0) a"
    by auto
  from running_total_monotone [OF this]
  show "js_le (ix_totalBurned (ix_feed toNumber isteps (ix_metrics ix_new_DeepBurnWatcher)))
              (ix_totalBurned (ix_feed toNumber (isteps @ ilater) (ix_metrics ix_new_DeepBurnWatcher)))"
    by (simp add: ix_totalBurned_feed new_totalBurned js_add_zero_left)
qed

text \<open>The theorem at two events of amounts 2 and 3, for both handlers.\<close>

theorem totalBurned_running_sum_witness:
  "js_le (Num 0) (Num 2) \<and> js_le (Num 0) (Num 3)
   \<and> totalBurned (feed [(10, burn_of 2 10)] (metrics new_DeepBurnWatcher)) = Num 2
   \<and> js_le (totalBurned (feed [(10, burn_of 2 10)] (metrics new_DeepBurnWatcher)))
           (totalBurned (feed ([(10, burn_of 2 10)] @ [(20, burn_of 3 20)]) (metrics new_DeepBurnWatcher)))
   \<and> ix_totalBurned (ix_feed Number_js [(10, raw_event ''2'' ''10'')] (ix_metrics ix_new_DeepBurnWatcher)) = Num 2
   \<and> js_le (ix_totalBurned (ix_feed Number_js [(10, raw_event ''2'' ''10'')] (ix_metrics ix_new_DeepBurnWatcher)))
           (ix_totalBurned (ix_feed Number_js ([(10, raw_event ''2'' ''10'')] @ [(20, raw_event ''3'' ''20'')])
              (ix_metrics ix_new_DeepBurnWatcher)))"
  using totalBurned_running_sum [of "[(10, burn_of 2 10)]" "[(20, burn_of 3 20)]" Number_js
      "[(10, raw_event ''2'' ''10'')]" "[(20, raw_event ''3'' ''20'')]"]
  by (simp add: burn_of_def raw_event_def ix_processBurnEvent_burnEvent_def
      totalBurned_processBurnEventData ix_totalBurned_processBurnEvent new_totalBurned)

text \<open>
  The claim as worded (\<open>totalBurned\<close> never decreases, for every sequence) fails: a
  payload whose amount is a negative numeral passes the truthiness test of the
  normalizer, and the handler adds the negative amount.
\<close>

theorem totalBurned_decreases_counterexample:
  "js_lt (totalBurned (metrics (processBurnEvent Number_js 0 (raw_event ''-1000000'' ''0'')
            (hd TREASURY_EVENTS) new_DeepBurnWatcher)))
         (totalBurned (metrics new_DeepBurnWatcher))
   \<and> js_lt (ix_totalBurned (ix_processBurnEvent Number_js 0 (raw_event ''-1'' ''0'')
            (ix_metrics ix_new_DeepBurnWatcher)))
         (ix_totalBurned (ix_metrics ix_new_DeepBurnWatcher))"
  by (simp add: processBurnEvent_def processBurnEvent_burnEvent_def raw_event_def
      totalBurned_processBurnEventData ix_totalBurned_processBurnEvent
      ix_processBurnEvent_burnEvent_def new_DeepBurnWatcher_def ix_new_DeepBurnWatcher_def
      Math_pow10_def)

subsection \<open>The event normalizer\<close>

text \<open>
  Claim C2, amended. For every raw payload, every conversion \<open>Number\<close> and every
  decimals \<open>d\<close>, the normalizer of the unnamed file takes the amount from the first of
  the candidates \<open>amount\<close>, \<open>value\<close>, \<open>burned_amount\<close> whose value is truthy (not
  absent, \<open>null\<close>, \<open>false\<close>, 0, \<open>NaN\<close> or the empty string) and divides it by
  \<open>10^d\<close>; when no candidate is truthy the amount is 0, and in every case the event is
  handed on and becomes the head of the history. The watcher is built with \<open>d = 6\<close>.
\<close>

theorem normalizer_first_truthy_candidate:
  "amount (processBurnEvent_burnEvent toNumber d event topic) =
     (case first_truthy (parsedJson event) amount_candidates of
        None \<Rightarrow> Num 0
      | Some v \<Rightarrow> js_div (toNumber v) (Math_pow10 d))
   \<and> hd (burnEvents (metrics (processBurnEvent toNumber now event topic w))) =
       processBurnEvent_burnEvent toNumber (DEEP_DECIMALS w) event topic
   \<and> DEEP_DECIMALS new_DeepBurnWatcher = 6"
  by (simp add: processBurnEvent_burnEvent_def first_truthy_def amount_candidates_def Let_def
      processBurnEvent_def burnEvents_processBurnEventData new_DeepBurnWatcher_def)

text \<open>
  The theorem at \<open>d = 6\<close>: the payload \<open>{amount: "500"}\<close> gives 0.0005, the payload
  \<open>{value: "1000000"}\<close> gives 1, and the empty payload gives an event of amount 0 that
  is recorded.
\<close>

theorem normalizer_first_truthy_candidate_witness:
  "amount (processBurnEvent_burnEvent Number_js 6 (payload_event [(''amount'', JString ''500'')]) (hd TREASURY_EVENTS)) = Num 0.0005
   \<and> amount (processBurnEvent_burnEvent Number_js 6 (payload_event [(''value'', JString ''1000000'')]) (hd TREASURY_EVENTS)) = Num 1
   \<and> amount (processBurnEvent_burnEvent Number_js 6 (payload_event []) (hd TREASURY_EVENTS)) = Num 0
   \<and> amount (hd (burnEvents (metrics (processBurnEvent Number_js 0 (payload_event []) (hd TREASURY_EVENTS) new_DeepBurnWatcher)))) = Num 0"
  using normalizer_first_truthy_candidate [of Number_js 6 "payload_event [(''amount'', JString ''500'')]" "hd TREASURY_EVENTS" 0 new_DeepBurnWatcher]
    normalizer_first_truthy_candidate [of Number_js 6 "payload_event [(''value'', JString ''1000000'')]" "hd TREASURY_EVENTS" 0 new_DeepBurnWatcher]
    normalizer_first_truthy_candidate [of Number_js 6 "payload_event []" "hd TREASURY_EVENTS" 0 new_DeepBurnWatcher]
  by (simp add: first_truthy_def amount_candidates_def payload_event_def Math_pow10_def)

text \<open>
  The claim as worded (the first candidate that is present wins) fails: in the payload
  \<open>{amount: 0, value: "1000000"}\<close> the field \<open>amount\<close> is present and the claim gives
  \<open>0 / 10^6 = 0\<close>, while the code skips the falsy 0 and gives 1 from \<open>value\<close>.
\<close>

theorem normalizer_first_present_counterexample:
  "amount (processBurnEvent_burnEvent Number_js 6
      (payload_event [(''amount'', JNumber (Num 0)), (''value'', JString ''1000000'')]) (hd TREASURY_EVENTS)) = Num 1
   \<and> spec_amount Number_js 6 (JObject [(''amount'', JNumber (Num 0)), (''value'', JString ''1000000'')]) = Num 0"
  by (simp add: processBurnEvent_burnEvent_def payload_event_def spec_amount_def first_present_def
      amount_candidates_def Math_pow10_def)

subsection \<open>What a refresh and a burn event change\<close>

text \<open>
  Claim C3, amended. A refresh (\<open>fetchAllMetrics\<close>) overwrites the three absolute
  fields with the results of the three queries, leaves \<open>totalBurned\<close>, the history and
  the last burn as they are, and recomputes \<open>burnRate24h\<close> from the history at the
  clock reading of the refresh. Processing a burn event leaves \<open>treasuryBalance\<close> and
  \<open>circulatingSupply\<close> as they are and subtracts the amount from \<open>currentSupply\<close>.
\<close>

theorem refresh_and_burn_frames:
  "currentSupply (metrics (fetchAllMetrics toNumber now l w)) = getTotalSupply (coinMetadata l) (metrics w)
   \<and> treasuryBalance (metrics (fetchAllMetrics toNumber now l w)) =
       getTreasuryBalance toNumber (DEEP_DECIMALS w) (treasuryObject l)
   \<and> circulatingSupply (metrics (fetchAllMetrics toNumber now l w)) =
       getCirculatingSupply toNumber (DEEP_DECIMALS w) (allCoins l)
   \<and> totalBurned (metrics (fetchAllMetrics toNumber now l w)) = totalBurned (metrics w)
   \<and> burnEvents (metrics (fetchAllMetrics toNumber now l w)) = burnEvents (metrics w)
   \<and> lastBurnTx (metrics (fetchAllMetrics toNumber now l w)) = lastBurnTx (metrics w)
   \<and> lastBurnAmount (metrics (fetchAllMetrics toNumber now l w)) = lastBurnAmount (metrics w)
   \<and> lastBurnTimestamp (metrics (fetchAllMetrics toNumber now l w)) = lastBurnTimestamp (metrics w)
   \<and> burnRate24h (metrics (fetchAllMetrics toNumber now l w)) =
       burnRate24h (calculateBurnRates now (metrics w))
   \<and> treasuryBalance (processBurnEventData now' e m) = treasuryBalance m
   \<and> circulatingSupply (processBurnEventData now' e m) = circulatingSupply m
   \<and> currentSupply (processBurnEventData now' e m) = js_sub (currentSupply m) (amount e)"
proof -
  have "burnRate24h (metrics (fetchAllMetrics toNumber now l w)) =
       burnRate24h (calculateBurnRates now (metrics w))"
    unfolding fetchAllMetrics_metrics by (rule burnRate24h_only_history) simp
  then show ?thesis
    by (simp add: fetchAllMetrics_metrics calculateBurnRates_frame processBurnEventData_absolute)
qed

text \<open>
  The theorem at a watcher that was refreshed once and then saw a burn of 5.
\<close>

theorem refresh_and_burn_frames_witness:
  "currentSupply (metrics (fetchAllMetrics Number_js (hours 24) healthy_ledger w_burned)) = Num 999999995
   \<and> treasuryBalance (metrics (fetchAllMetrics Number_js (hours 24) healthy_ledger w_burned)) = Num 500
   \<and> circulatingSupply (metrics (fetchAllMetrics Number_js (hours 24) healthy_ledger w_burned)) = Num 5
   \<and> totalBurned (metrics (fetchAllMetrics Number_js (hours 24) healthy_ledger w_burned)) = Num 5
   \<and> burnEvents (metrics (fetchAllMetrics Number_js (hours 24) healthy_ledger w_burned)) = [burn_of 5 0]
   \<and> treasuryBalance (processBurnEventData 0 (burn_of 5 0) (metrics w_refreshed)) = Num 500
   \<and> circulatingSupply (processBurnEventData 0 (burn_of 5 0) (metrics w_refreshed)) = Num 5
   \<and> currentSupply (processBurnEventData 0 (burn_of 5 0) (metrics w_refreshed)) = Num 999999995"
  using refresh_and_burn_frames [of Number_js "hours 24" healthy_ledger w_burned 0 "burn_of 5 0"
      "metrics w_refreshed"]
  by (simp add: w_burned_metrics w_refreshed_metrics healthy_queries getTotalSupply_js_or js_or_def
      burn_of_def)

text \<open>
  The claim as worded fails in both directions: a burn of 5 takes \<open>currentSupply\<close> from
  1000000000 to 999999995, and a refresh 24 hours after that burn takes \<open>burnRate24h\<close>
  from 5 to 0.
\<close>

theorem refresh_and_burn_frames_counterexample:
  "currentSupply (metrics w_refreshed) = Num 1000000000
   \<and> currentSupply (processBurnEventData 0 (burn_of 5 0) (metrics w_refreshed)) = Num 999999995
   \<and> burnRate24h (metrics w_burned) = Num 5
   \<and> burnRate24h (metrics (fetchAllMetrics Number_js (hours 24) healthy_ledger w_burned)) = Num 0"
  by (simp add: w_burned_metrics w_refreshed_metrics processBurnEventData_absolute burn_of_def
      fetchAllMetrics_metrics burnRate24h_calculateBurnRates hours_def Date_at_def)

subsection \<open>The 24-hour burn rate\<close>

text \<open>
  Claim C4, amended. After every burn event is processed, by either handler,
  \<open>burnRate24h\<close> equals the sum of the amounts of exactly those events retained in the
  history whose timestamp is later than the clock reading of that call minus 24 hours
  (the clock reading minus the timestamp is below 86400000 ms). For an event that is not
  stamped after the clock reading and is not exactly 24 hours old, that is the same as
  lying within 24 hours of the clock reading.
\<close>

theorem burnRate24h_after_event:
  "burnRate24h (processBurnEventData now e m) =
     sum_amounts (map amount
       (filter (\<lambda>event. age_below_24h now (timestamp event))
          (burnEvents (processBurnEventData now e m))))
   \<and> ix_burnRate24h (ix_processBurnEvent toNumber now event im) =
     sum_amounts (map ix_amount
       (filter (\<lambda>event. age_below_24h now (ix_timestamp event))
          (ix_burnEvents (ix_processBurnEvent toNumber now event im))))
   \<and> (getTime d = Num t \<and> t \<le> real_of_int now \<and> real_of_int now - t \<noteq> 86400000 \<longrightarrow>
        age_below_24h now d = within_24h_of_now now d)"
proof (intro conjI impI)
  show "burnRate24h (processBurnEventData now e m) =
     sum_amounts (map amount
       (filter (\<lambda>event. age_below_24h now (timestamp event))
          (burnEvents (processBurnEventData now e m))))"
    by (subst processBurnEventData_as_recalculation)
      (simp only: burnRate24h_window_sum calculateBurnRates_frame)
next
  show "ix_burnRate24h (ix_processBurnEvent toNumber now event im) =
     sum_amounts (map ix_amount
       (filter (\<lambda>event. age_below_24h now (ix_timestamp event))
          (ix_burnEvents (ix_processBurnEvent toNumber now event im))))"
    by (subst ix_processBurnEvent_as_recalculation)
      (simp only: ix_burnRate24h_window_sum ix_calculateBurnRates_frame)
next
  assume "getTime d = Num t \<and> t \<le> real_of_int now \<and> real_of_int now - t \<noteq> 86400000"
  then show "age_below_24h now d = within_24h_of_now now d"
    by (simp add: windows_agree)
qed

text \<open>
  The theorem at a clock reading of 100 hours, with events stamped 75 hours (25 hours
  old, left out), 77 hours (23 hours old, counted) and 100 hours (counted): the rate is
  \<open>11 + 13 = 24\<close>.
\<close>

theorem burnRate24h_after_event_witness:
  "age_below_24h (hours 100) (Date_at (hours 100))
   \<and> age_below_24h (hours 100) (Date_at (hours 77))
   \<and> \<not> age_below_24h (hours 100) (Date_at (hours 75))
   \<and> burnRate24h (processBurnEventData (hours 100) (burn_of 13 (hours 100)) m_two_burns) = Num 24
   \<and> ix_burnRate24h (ix_processBurnEvent Number_js (hours 100) (raw_event ''13'' ''360000000'')
        im_two_burns) = Num 24
   \<and> getTime (Date_at (hours 77)) = Num (real_of_int (hours 77))
   \<and> real_of_int (hours 77) \<le> real_of_int (hours 100)
   \<and> real_of_int (hours 100) - real_of_int (hours 77) \<noteq> 86400000
   \<and> within_24h_of_now (hours 100) (Date_at (hours 77))"
  using burnRate24h_after_event [of "hours 100" "burn_of 13 (hours 100)" m_two_burns Number_js
      "raw_event ''13'' ''360000000''" im_two_burns "Date_at (hours 77)" "real_of_int (hours 77)"]
  by (simp add: burnEvents_processBurnEventData ix_burnEvents_processBurnEvent two_burns_history
      burn_of_def raw_event_def ix_processBurnEvent_burnEvent_def age_below_24h_def hours_def
      Date_at_def new_Date_def within_24h_of_now_def)

text \<open>
  The claim as worded (exactly the events within 24 hours of the current time) fails on
  both sides of the window, for both handlers. At a clock reading of 100 hours an event
  of 13 stamped 1000 hours is not within 24 hours of the clock reading and is counted;
  an event of 13 stamped 76 hours, exactly 24 hours old, is within 24 hours and is left
  out.
\<close>

theorem burnRate24h_window_counterexample:
  "\<not> within_24h_of_now (hours 100) (Date_at (hours 1000))
   \<and> burnRate24h (processBurnEventData (hours 100) (burn_of 13 (hours 1000))
        (metrics new_DeepBurnWatcher)) = Num 13
   \<and> ix_burnRate24h (ix_processBurnEvent Number_js (hours 100) (raw_event ''13'' ''3600000000'')
        (ix_metrics ix_new_DeepBurnWatcher)) = Num 13
   \<and> within_24h_of_now (hours 100) (Date_at (hours 76))
   \<and> burnRate24h (processBurnEventData (hours 100) (burn_of 13 (hours 76))
        (metrics new_DeepBurnWatcher)) = Num 0
   \<and> ix_burnRate24h (ix_processBurnEvent Number_js (hours 100) (raw_event ''13'' ''273600000'')
        (ix_metrics ix_new_DeepBurnWatcher)) = Num 0"
  by (simp add: within_24h_of_now_def hours_def Date_at_def new_Date_def burn_of_def raw_event_def
      processBurnEventData_def ix_processBurnEvent_def ix_processBurnEvent_burnEvent_def
      calculateBurnRates_def ix_calculateBurnRates_def new_DeepBurnWatcher_def
      ix_new_DeepBurnWatcher_def Let_def)

subsection \<open>The bound on the history\<close>

text \<open>
  Claim C5, at the input where \<open>src/index.ts\<close> fails it. After 101 events the history
  of \<open>processBurnEvent\<close> of \<open>src/index.ts\<close> has 101 entries: that handler never
  trims it. The handler of the unnamed file keeps 100 (lemmas \<open>history_bounded\<close> and
  \<open>history_evicts_oldest\<close> above prove the claim for it).
\<close>

theorem history_unbounded_in_index_ts:
  "length (ix_burnEvents (ix_feed Number_js (replicate 101 (0, raw_event ''1'' ''0''))
      (ix_metrics ix_new_DeepBurnWatcher))) = 101
   \<and> length (burnEvents (feed (replicate 101 (0, burn_of 1 0)) (metrics new_DeepBurnWatcher))) = 100"
  by (simp add: ix_length_feed length_feed new_DeepBurnWatcher_def ix_new_DeepBurnWatcher_def)

subsection \<open>The fallback poller\<close>

text \<open>
  Claim C6. In every cycle of the fallback poller, with previous balance \<open>p\<close> and
  fetched balance \<open>c\<close>: the new previous balance is \<open>c\<close>; if \<open>p - c > 0\<close> exactly one
  event is handed to \<open>processBurnEventData\<close>, with amount \<open>p - c\<close>, the identifier
  \<open>treasury-\<close> followed by the clock reading, and the marking
  \<open>TreasuryBalanceDecrease\<close>, which is none of the subscribed topics; if \<open>p - c \<le> 0\<close>
  no event is handed on and the watcher is unchanged. The variable the timer closes over
  holds \<open>c\<close> after the cycle.
\<close>

theorem fallback_poll_cycle:
  "fst (fallbackPoll toNumber tId tStamp now object p w) =
     getTreasuryBalance toNumber (DEEP_DECIMALS w) object
   \<and> (js_gt (js_sub p (getTreasuryBalance toNumber (DEEP_DECIMALS w) object)) (Num 0) \<longrightarrow>
        snd (snd (fallbackPoll toNumber tId tStamp now object p w)) =
          [\<lparr>txId = ''treasury-'' @ string_of_int tId,
            amount = js_sub p (getTreasuryBalance toNumber (DEEP_DECIMALS w) object),
            timestamp = Date_at tStamp, eventType = ''TreasuryBalanceDecrease''\<rparr>]
        \<and> fst (snd (fallbackPoll toNumber tId tStamp now object p w)) =
          w\<lparr>metrics := processBurnEventData now
               \<lparr>txId = ''treasury-'' @ string_of_int tId,
                amount = js_sub p (getTreasuryBalance toNumber (DEEP_DECIMALS w) object),
                timestamp = Date_at tStamp, eventType = ''TreasuryBalanceDecrease''\<rparr> (metrics w)\<rparr>)
   \<and> (js_le (js_sub p (getTreasuryBalance toNumber (DEEP_DECIMALS w) object)) (Num 0) \<longrightarrow>
        snd (snd (fallbackPoll toNumber tId tStamp now object p w)) = []
        \<and> fst (snd (fallbackPoll toNumber tId tStamp now object p w)) = w)
   \<and> ''TreasuryBalanceDecrease'' \<notin> set TREASURY_EVENTS
   \<and> (i < length (fallbackPollers w) \<longrightarrow>
        fallbackPollers (fst (fallbackTick toNumber tId tStamp now object i w)) ! i =
          getTreasuryBalance toNumber (DEEP_DECIMALS w) object)"
  by (simp add: fallbackPoll_cases Let_def js_le_not_gt fallback_marking_distinct
      fallbackTick_pollers)

text \<open>
  The theorem at \<open>p = 1000\<close>: \<open>c = 900\<close> gives one event of amount 100, \<open>c = 1000\<close> and
  \<open>c = 1100\<close> give none, and the stored balance becomes \<open>c\<close>.
\<close>

theorem fallback_poll_cycle_witness:
  "js_gt (js_sub (Num 1000) (Num 900)) (Num 0)
   \<and> map amount (snd (snd (fallbackPoll Number_js 5 6 7 (supply_response ''900000000'') (Num 1000) w_fallback))) = [Num 100]
   \<and> map txId (snd (snd (fallbackPoll Number_js 5 6 7 (supply_response ''900000000'') (Num 1000) w_fallback))) = [''treasury-5'']
   \<and> fst (fallbackPoll Number_js 5 6 7 (supply_response ''900000000'') (Num 1000) w_fallback) = Num 900
   \<and> js_le (js_sub (Num 1000) (Num 1000)) (Num 0)
   \<and> snd (snd (fallbackPoll Number_js 5 6 7 (supply_response ''1000000000'') (Num 1000) w_fallback)) = []
   \<and> fst (fallbackPoll Number_js 5 6 7 (supply_response ''1000000000'') (Num 1000) w_fallback) = Num 1000
   \<and> js_le (js_sub (Num 1000) (Num 1100)) (Num 0)
   \<and> snd (snd (fallbackPoll Number_js 5 6 7 (supply_response ''1100000000'') (Num 1000) w_fallback)) = []
   \<and> fst (fallbackPoll Number_js 5 6 7 (supply_response ''1100000000'') (Num 1000) w_fallback) = Num 1100
   \<and> 0 < length (fallbackPollers w_fallback)
   \<and> fallbackPollers (fst (fallbackTick Number_js 5 6 7 (supply_response ''900000000'') 0 w_fallback)) ! 0 = Num 900"
  using fallback_poll_cycle [of Number_js 5 6 7 "supply_response ''900000000''" "Num 1000" w_fallback 0]
    fallback_poll_cycle [of Number_js 5 6 7 "supply_response ''1000000000''" "Num 1000" w_fallback 0]
    fallback_poll_cycle [of Number_js 5 6 7 "supply_response ''1100000000''" "Num 1000" w_fallback 0]
  by (simp add: w_fallback_fields supply_response_balance js_gt_def string_of_int_def)

subsection \<open>The subscription manager\<close>

text \<open>
  Claim C7, at the input where the unnamed file fails it. When the subscription of the
  first topic is rejected and the other two open, \<open>setupEventSubscription\<close> starts no
  timer at all; when all three are rejected it starts the fallback poller and still no
  retry. The rejection is caught inside the loop, so the retry in the outer \<open>catch\<close> is
  never reached (lemma \<open>setupEventSubscription_no_retry\<close>). \<open>src/index.ts\<close> schedules
  the retry after 5000 ms.
\<close>

theorem failed_topic_is_not_retried:
  "first_rejected (hd TREASURY_EVENTS) = Rejected
   \<and> snd (setupEventSubscription first_rejected new_DeepBurnWatcher) = []
   \<and> snd (setupEventSubscription all_rejected new_DeepBurnWatcher) =
       [SetInterval Run_fallbackPoll 30000]
   \<and> snd (ix_setupEventSubscription Rejected ix_new_DeepBurnWatcher) =
       [SetTimeout Run_setupEventSubscription 5000]"
  by (simp add: setupEventSubscription_never_raises subscribe_topics_None Let_def
      setupAlternativeMonitoring_def first_rejected_def all_rejected_def
      ix_setupEventSubscription_retries new_DeepBurnWatcher_def TREASURY_EVENTS_def)

text \<open>
  Claim C8. At startup, whatever refresh interval \<open>r\<close> the command line has set, the
  fallback poller is started if and only if none of the topics could be subscribed, and
  then exactly once: the timers started are the refresh timer and, in that case only, one
  fallback timer. Nothing that reaches the watcher later (an event, a refresh, a firing of
  the poller, a later run of \<open>setupEventSubscription\<close>, \<open>cleanup\<close>) removes a poller, and
  a later run in which a subscription opens leaves the pollers as they are next to the
  open subscription.
\<close>

theorem fallback_activated_once_at_startup:
  "length (fallbackPollers (fst (initialize toNumber now l subscribeEvent
          (new_DeepBurnWatcher\<lparr>refreshInterval := r\<rparr>)))) =
     (if \<forall>t \<in> set TREASURY_EVENTS. subscribeEvent t = Rejected then 1 else 0)
   \<and> snd (initialize toNumber now l subscribeEvent
          (new_DeepBurnWatcher\<lparr>refreshInterval := r\<rparr>)) =
     (if \<forall>t \<in> set TREASURY_EVENTS. subscribeEvent t = Rejected
      then [SetInterval Run_fallbackPoll 30000] else []) @ [SetInterval Run_fetchAllMetrics r]
   \<and> (unsubscribe (fst (initialize toNumber now l subscribeEvent
          (new_DeepBurnWatcher\<lparr>refreshInterval := r\<rparr>))) = None) =
     (\<forall>t \<in> set TREASURY_EVENTS. subscribeEvent t = Rejected)
   \<and> length (fallbackPollers w) \<le> length (fallbackPollers (run toNumber inputs w))
   \<and> ((\<exists>t \<in> set TREASURY_EVENTS. later t \<noteq> Rejected) \<longrightarrow>
        fallbackPollers (react toNumber (Resubscribe later) w) = fallbackPollers w
        \<and> unsubscribe (react toNumber (Resubscribe later) w) \<noteq> None)"
proof (intro conjI impI)
  show "length (fallbackPollers (fst (initialize toNumber now l subscribeEvent
          (new_DeepBurnWatcher\<lparr>refreshInterval := r\<rparr>)))) =
     (if \<forall>t \<in> set TREASURY_EVENTS. subscribeEvent t = Rejected then 1 else 0)"
    by (simp add: initialize_parts setupEventSubscription_pollers fetchAllMetrics_other_fields
        new_watcher_fields)
next
  show "snd (initialize toNumber now l subscribeEvent
          (new_DeepBurnWatcher\<lparr>refreshInterval := r\<rparr>)) =
     (if \<forall>t \<in> set TREASURY_EVENTS. subscribeEvent t = Rejected
      then [SetInterval Run_fallbackPoll 30000] else []) @ [SetInterval Run_fetchAllMetrics r]"
    by (simp add: initialize_parts setupEventSubscription_effects fetchAllMetrics_other_fields
        setupEventSubscription_refreshInterval new_watcher_fields)
next
  show "(unsubscribe (fst (initialize toNumber now l subscribeEvent
          (new_DeepBurnWatcher\<lparr>refreshInterval := r\<rparr>))) = None) =
     (\<forall>t \<in> set TREASURY_EVENTS. subscribeEvent t = Rejected)"
    by (simp add: initialize_parts setupEventSubscription_unsubscribe fetchAllMetrics_other_fields
        new_watcher_fields)
next
  show "length (fallbackPollers w) \<le> length (fallbackPollers (run toNumber inputs w))"
    by (rule run_keeps_pollers)
next
  assume later: "\<exists>t \<in> set TREASURY_EVENTS. later t \<noteq> Rejected"
  then show "fallbackPollers (react toNumber (Resubscribe later) w) = fallbackPollers w"
    by (auto simp add: setupEventSubscription_pollers)
  from later show "unsubscribe (react toNumber (Resubscribe later) w) \<noteq> None"
    by (auto simp add: setupEventSubscription_unsubscribe)
qed

text \<open>
  The theorem at a startup where only the first topic is rejected (no poller), and at a
  watcher whose startup had every topic rejected (one poller, kept when the
  subscriptions open later).
\<close>

theorem fallback_activated_once_at_startup_witness:
  "length (fallbackPollers w_fallback) = 1
   \<and> unsubscribe w_fallback = None
   \<and> length (fallbackPollers (fst (initialize Number_js 0 healthy_ledger first_rejected new_DeepBurnWatcher))) = 0
   \<and> unsubscribe (fst (initialize Number_js 0 healthy_ledger first_rejected new_DeepBurnWatcher)) \<noteq> None
   \<and> snd (initialize Number_js 0 healthy_ledger first_rejected new_DeepBurnWatcher) =
       [SetInterval Run_fetchAllMetrics 15000]
   \<and> late_success (hd TREASURY_EVENTS) \<noteq> Rejected
   \<and> hd TREASURY_EVENTS \<in> set TREASURY_EVENTS
   \<and> fallbackPollers (react Number_js (Resubscribe late_success) w_fallback) = fallbackPollers w_fallback
   \<and> unsubscribe (react Number_js (Resubscribe late_success) w_fallback) \<noteq> None
   \<and> length (fallbackPollers w_fallback)
       \<le> length (fallbackPollers (run Number_js [Resubscribe late_success, Cleanup] w_fallback))"
proof -
  have some: "\<exists>t \<in> set TREASURY_EVENTS. late_success t \<noteq> Rejected"
    by (auto simp add: late_success_def TREASURY_EVENTS_def)
  have none: "\<not> (\<forall>t \<in> set TREASURY_EVENTS. first_rejected t = Rejected)"
    by (simp add: first_rejected_def TREASURY_EVENTS_def DEEPBOOK_PACKAGE_ID_def
        DEEP_TOKEN_ADDRESS_def)
  show ?thesis
    using some none
      fallback_activated_once_at_startup [of Number_js 0 healthy_ledger first_rejected 15000
        w_fallback "[Resubscribe late_success, Cleanup]" late_success]
    by (simp add: w_fallback_fields late_success_def TREASURY_EVENTS_def new_DeepBurnWatcher_def)
qed

subsection \<open>A refresh whose queries fail\<close>




subsection \<open>The supply query\<close>



end
